theory Spec2Isabelle
  imports Main "HOL-Library.Sublist"
begin

section \<open>Strings as the Python code uses them\<close>

text \<open>
  Strings are modelled as ASCII character lists. \<open>str.lower\<close> maps the letters A-Z to
  a-z and leaves every other character alone; \<open>str.isalnum\<close> holds of the ASCII
  letters and digits.
\<close>

definition upper_ascii :: string where
  "upper_ascii = ''ABCDEFGHIJKLMNOPQRSTUVWXYZ''"

definition lower_ascii :: string where
  "lower_ascii = ''abcdefghijklmnopqrstuvwxyz''"

definition digits_ascii :: string where
  "digits_ascii = ''0123456789''"

definition lower_char :: "char \<Rightarrow> char" where
  "lower_char c = (case map_of (zip upper_ascii lower_ascii) c of Some d \<Rightarrow> d | None \<Rightarrow> c)"

text \<open>\<open>s.lower()\<close>\<close>
definition lower :: "string \<Rightarrow> string" where
  "lower s = map lower_char s"

text \<open>\<open>c.isalnum()\<close>\<close>
definition isalnum :: "char \<Rightarrow> bool" where
  "isalnum c = (c \<in> set (upper_ascii @ lower_ascii @ digits_ascii))"

text \<open>\<open>needle in hay\<close> on strings: the substring test.\<close>
fun str_in :: "string \<Rightarrow> string \<Rightarrow> bool" where
  "str_in n [] = (n = [])"
| "str_in n (c # cs) = (prefix n (c # cs) \<or> str_in n cs)"

text \<open>\<open>s.replace(c, "")\<close> for a one-character pattern.\<close>
definition remove_char :: "char \<Rightarrow> string \<Rightarrow> string" where
  "remove_char c s = filter (\<lambda>x. x \<noteq> c) s"

text \<open>\<open>str(n)\<close> for a non-negative integer.\<close>
definition digit_char :: "nat \<Rightarrow> char" where
  "digit_char d = digits_ascii ! d"

function str_nat :: "nat \<Rightarrow> string" where
  "str_nat n = (if n < 10 then [digit_char n] else str_nat (n div 10) @ [digit_char (n mod 10)])"
  by pat_completeness auto
termination
  by (relation "measure (\<lambda>n. n)") auto

declare str_nat.simps [simp del]

text \<open>\<open>str(i)\<close> for an integer.\<close>
definition str_int :: "int \<Rightarrow> string" where
  "str_int i = (if i < 0 then CHR ''-'' # str_nat (nat (- i)) else str_nat (nat i))"

section \<open>Search hits and the relevance scorer\<close>

text \<open>
  A raw hit is the provider's dictionary; the keys the code reads are fields, \<open>None\<close>
  when the key is absent.
\<close>

record hit =
  title :: "string option"
  source :: "string option"
  original :: "string option"
  link :: "string option"
  thumbnail :: "string option"
  original_width :: "int option"
  original_height :: "int option"

text \<open>\<open>d.get(key, default)\<close>\<close>
definition get_or :: "'a option \<Rightarrow> 'a \<Rightarrow> 'a" where
  "get_or v d = (case v of None \<Rightarrow> d | Some x \<Rightarrow> x)"

definition part_keywords :: "string list" where
  "part_keywords = [''transformer'', ''relay'', ''contactor'', ''breaker'', ''component'',
                    ''electrical'', ''industrial'', ''genuine'', ''oem'', ''original'',
                    ''schneider'', ''abb'', ''siemens'', ''eocr'', ''current'']"

definition industrial_sources :: "string list" where
  "industrial_sources = [''alliance'', ''automation'', ''industrial'', ''electric'', ''schneider'',
                         ''abb.com'', ''siemens'', ''rockwell'', ''eaton'', ''ge.com'', ''westinghouse'',
                         ''technical'', ''catalog'', ''datasheet'', ''spec'']"

definition trusted_sources :: "string list" where
  "trusted_sources = [''ebay'', ''amazon'', ''digikey'', ''mouser'', ''newark'', ''rs-online'',
                      ''farnell'', ''allied'', ''grainger'']"

definition avoid_keywords :: "string list" where
  "avoid_keywords = [''logo'', ''banner'', ''advertisement'', ''ad'', ''promo'', ''sale'',
                     ''coupon'', ''catalog'', ''manual'', ''diagram'', ''schematic'']"

text \<open>\<open>for keyword in part_keywords: if keyword in title: score += 8\<close>\<close>
fun keyword_loop :: "string list \<Rightarrow> string \<Rightarrow> int \<Rightarrow> int" where
  "keyword_loop [] title_l score = score"
| "keyword_loop (keyword # rest) title_l score =
     keyword_loop rest title_l (if str_in keyword title_l then score + 8 else score)"

text \<open>
  \<open>for source in industrial_sources: if source in source: score += 20; break\<close>.
  The loop variable is the local \<open>source\<close> itself, so each iteration rebinds it to the
  list element and the test compares that element with itself. The loop returns the
  value of \<open>source\<close> after the loop together with the score. (The variables
  \<open>title\<close> and \<open>source\<close> of the code are \<open>title_l\<close> and \<open>source_l\<close> here.)
\<close>
fun industrial_loop :: "string list \<Rightarrow> string \<Rightarrow> int \<Rightarrow> string \<times> int" where
  "industrial_loop [] source_l score = (source_l, score)"
| "industrial_loop (s # rest) source_l score =
     (if str_in s s then (s, score + 20) else industrial_loop rest s score)"

text \<open>\<open>for trusted in trusted_sources: if trusted in source: score += 10; break\<close>\<close>
fun trusted_loop :: "string list \<Rightarrow> string \<Rightarrow> int \<Rightarrow> int" where
  "trusted_loop [] source_l score = score"
| "trusted_loop (trusted # rest) source_l score =
     (if str_in trusted source_l then score + 10 else trusted_loop rest source_l score)"

text \<open>The two source loops in sequence, from the hit's lower-cased source label.\<close>
definition source_trust :: "string \<Rightarrow> int \<Rightarrow> int" where
  "source_trust source_l score =
     (case industrial_loop industrial_sources source_l score of
        (source_l', score') \<Rightarrow> trusted_loop trusted_sources source_l' score')"

text \<open>\<open>for avoid in avoid_keywords: if avoid in title: score -= 10\<close>\<close>
fun avoid_loop :: "string list \<Rightarrow> string \<Rightarrow> int \<Rightarrow> int" where
  "avoid_loop [] title_l score = score"
| "avoid_loop (avoid # rest) title_l score =
     avoid_loop rest title_l (if str_in avoid title_l then score - 10 else score)"

definition dimension_adjust :: "int \<Rightarrow> int \<Rightarrow> int \<Rightarrow> int" where
  "dimension_adjust width height score =
     (if width \<noteq> 0 \<and> height \<noteq> 0 then
        (if 200 \<le> width \<and> width \<le> 1000 \<and> 200 \<le> height \<and> height \<le> 1000 then score + 10
         else if width < 100 \<or> height < 100 then score - 15
         else if width > 2000 \<or> height > 2000 then score - 5
         else score)
      else score)"

text \<open>
  \<open>_score_image_relevance\<close>. Every increment is a whole number, so the float score is an
  integer. The manufacturer is \<open>None\<close> or a string; an empty string is falsy.
\<close>
definition score_image_relevance :: "hit \<Rightarrow> string \<Rightarrow> string option \<Rightarrow> int" where
  "score_image_relevance image_data part_number manufacturer =
     (let score0 = 0;
          title_l = lower (get_or (title image_data) '''');
          source_l = lower (get_or (source image_data) '''');
          part_clean = remove_char CHR '' '' (remove_char CHR ''-'' (lower part_number));
          score1 = (if str_in part_clean (remove_char CHR '' '' (remove_char CHR ''-'' title_l))
                    then score0 + 50
                    else if str_in (lower part_number) title_l then score0 + 30
                    else score0);
          score2 = (case manufacturer of
                      None \<Rightarrow> score1
                    | Some m \<Rightarrow> if m \<noteq> [] \<and> str_in (lower m) title_l then score1 + 20 else score1);
          score3 = keyword_loop part_keywords title_l score2;
          score4 = source_trust source_l score3;
          score5 = avoid_loop avoid_keywords title_l score4;
          score6 = dimension_adjust (get_or (original_width image_data) 0)
                                    (get_or (original_height image_data) 0) score5
      in max 0 score6)"

section \<open>The selector\<close>

text \<open>
  The selection loop of \<open>_select_best_images\<close> over the sorted (score, hit) pairs.
  \<open>used_sources\<close> is written and never read, so it is left out.
\<close>
fun select_loop :: "(int \<times> hit) list \<Rightarrow> int \<Rightarrow> hit list \<Rightarrow> hit list" where
  "select_loop [] max_images selected = selected"
| "select_loop ((score, img) # rest) max_images selected =
     (if int (length selected) \<ge> max_images then selected
      else
        (let src = lower (get_or (source img) '''');
             source_count = length (filter (\<lambda>sel_img. lower (get_or (source sel_img) '''') = src) selected)
         in if score > 10 \<and> source_count < 2
            then select_loop rest max_images (selected @ [img])
            else select_loop rest max_images selected))"

text \<open>
  \<open>scored_images.sort(key=lambda x: x[0], reverse=True)\<close>: a stable sort, highest score
  first; hits of equal score keep their input order.
\<close>
definition sort_scored :: "(int \<times> hit) list \<Rightarrow> (int \<times> hit) list" where
  "sort_scored scored = sort_key (\<lambda>p. - fst p) scored"

definition select_best_images :: "hit list \<Rightarrow> string \<Rightarrow> string option \<Rightarrow> int \<Rightarrow> hit list" where
  "select_best_images images part_number manufacturer max_images =
     (let scored_images = map (\<lambda>img. (score_image_relevance img part_number manufacturer, img)) images
      in select_loop (sort_scored scored_images) max_images [])"

section \<open>The response models\<close>

text \<open>
  The pydantic models as records. Field names carry the initials of their class
  (\<open>ir_\<close>, \<open>psr_\<close>, \<open>dr_\<close>, \<open>resp_\<close>, \<open>sr_\<close>) because several classes share
  field names. Time stamps and the measured processing time are left out.
\<close>

record ImageResult =
  ir_title :: string
  ir_original_url :: string
  ir_thumbnail_url :: string
  ir_source :: string
  ir_width :: "int option"
  ir_height :: "int option"

record PartSearchResult =
  psr_part_number :: string
  psr_search_query :: string
  psr_images :: "ImageResult list"
  psr_search_success :: bool
  psr_error_message :: "string option"

record SearchResponse =
  sr_search_id :: string
  sr_results :: "PartSearchResult list"
  sr_total_parts :: int
  sr_total_images_found :: int

record DownloadRequest =
  req_search_id :: string
  req_part_numbers :: "string list option"

record DownloadResult =
  dr_part_number :: string
  dr_image_url :: string
  dr_filename :: string
  dr_success :: bool
  dr_error_message :: "string option"
  dr_file_size :: "int option"

record DownloadResponse =
  resp_download_id :: string
  resp_status :: string
  resp_total_images :: int
  resp_downloaded_images :: int
  resp_results :: "DownloadResult list"
  resp_zip_file :: "string option"

section \<open>Query planning and the search service\<close>


text \<open>\<open>f'"{s}"'\<close>\<close>
definition quoted :: "string \<Rightarrow> string" where
  "quoted s = [CHR 0x22] @ s @ [CHR 0x22]"

text \<open>Truthiness of an optional string: \<open>if manufacturer:\<close>.\<close>
definition truthy :: "string option \<Rightarrow> bool" where
  "truthy m = (case m of None \<Rightarrow> False | Some x \<Rightarrow> x \<noteq> [])"



text \<open>
  What the provider call \<open>GoogleSearch(params).get_dict()\<close> does: it raises, or it
  returns a dictionary whose keys \<open>error\<close> and \<open>images_results\<close> may each be absent.
\<close>
datatype provider_reply =
    ProviderRaises string
  | ProviderDict "string option" "hit list option"

text \<open>\<open>_filter_previous_images\<close>; \<open>exclude_urls\<close> is \<open>None\<close> or a list.\<close>
definition filter_previous_images :: "hit list \<Rightarrow> string list option \<Rightarrow> hit list" where
  "filter_previous_images imgs exclude_urls =
     (case exclude_urls of
        None \<Rightarrow> imgs
      | Some urls \<Rightarrow>
          if urls = [] then imgs
          else filter (\<lambda>img. get_or (original img) '''' \<notin> set urls
                            \<and> get_or (link img) '''' \<notin> set urls) imgs)"

text \<open>The conversion of a selected hit to an \<open>ImageResult\<close>.\<close>
definition to_image_result :: "hit \<Rightarrow> ImageResult" where
  "to_image_result img =
     \<lparr>ir_title = get_or (title img) '''',
      ir_original_url = (case original img of Some u \<Rightarrow> u | None \<Rightarrow> get_or (link img) ''''),
      ir_thumbnail_url = get_or (thumbnail img) '''',
      ir_source = get_or (source img) '''',
      ir_width = original_width img,
      ir_height = original_height img\<rparr>"


text \<open>\<open>any(keyword in part_lower for keyword in keywords)\<close>\<close>
definition any_in :: "string list \<Rightarrow> string \<Rightarrow> bool" where
  "any_in keywords s = list_ex (\<lambda>keyword. str_in keyword s) keywords"

text \<open>The first-pass query of the service method \<open>search_part_images\<close>.\<close>
definition build_search_query :: "string \<Rightarrow> string option \<Rightarrow> string" where
  "build_search_query part_number manufacturer =
     (let part_lower = lower part_number
      in if any_in [''ct-'', ''transformer'', ''relay'', ''contactor'', ''breaker''] part_lower then
           (if truthy manufacturer
            then quoted part_number @ '' '' @ the manufacturer @ '' electrical component industrial''
            else quoted part_number @ '' electrical component transformer relay'')
         else if any_in [''pf'', ''filter'', ''bpr'', ''ngk'', ''spark''] part_lower then
           (if truthy manufacturer
            then quoted part_number @ '' '' @ quoted (the manufacturer) @ '' genuine part''
            else quoted part_number @ '' genuine OEM part'')
         else
           (if truthy manufacturer
            then quoted part_number @ '' '' @ the manufacturer @ '' part component''
            else quoted part_number @ '' industrial part component''))"

text \<open>The service method \<open>search_part_images\<close>, given the provider's reply.\<close>
definition search_part_images_service ::
  "string \<Rightarrow> string option \<Rightarrow> int \<Rightarrow> provider_reply \<Rightarrow> PartSearchResult" where
  "search_part_images_service part_number manufacturer num_results reply =
     (let search_query = build_search_query part_number manufacturer
      in case reply of
           ProviderRaises e \<Rightarrow>
             \<lparr>psr_part_number = part_number, psr_search_query = '''', psr_images = [],
              psr_search_success = False, psr_error_message = Some e\<rparr>
         | ProviderDict (Some err) _ \<Rightarrow>
             \<lparr>psr_part_number = part_number, psr_search_query = search_query, psr_images = [],
              psr_search_success = False, psr_error_message = Some err\<rparr>
         | ProviderDict None images_results \<Rightarrow>
             (let raw_images = get_or images_results [];
                  best_images = select_best_images raw_images part_number manufacturer num_results
              in \<lparr>psr_part_number = part_number, psr_search_query = search_query,
                  psr_images = map to_image_result best_images,
                  psr_search_success = True, psr_error_message = None\<rparr>))"

section \<open>The job tracker and the search endpoint\<close>

text \<open>
  An entry of the process-wide dictionary \<open>download_tasks\<close> is itself a dictionary;
  search jobs and download jobs live in the same map and carry different keys. Each
  key is a field that is \<open>None\<close> when the key is absent (for \<open>zip_file\<close> also when its
  value is \<open>None\<close>).
\<close>
record task =
  task_search_results :: "PartSearchResult list option"
  task_status :: "string option"
  task_total_images :: "int option"
  task_downloaded_images :: "int option"
  task_results :: "DownloadResult list option"
  task_zip_file :: "string option"
  task_error_message :: "string option"
  task_reprocessed_from :: "string option"
  task_strategy :: "string option"

type_synonym tracker = "string \<rightharpoonup> task"

definition empty_task :: task where
  "empty_task = \<lparr>task_search_results = None, task_status = None, task_total_images = None,
     task_downloaded_images = None, task_results = None, task_zip_file = None,
     task_error_message = None, task_reprocessed_from = None, task_strategy = None\<rparr>"

datatype error =
    HTTPException int string
  | KeyError string

record PartSearchRequest =
  preq_part_numbers :: "string list"
  preq_manufacturer :: "string option"
  preq_num_images_per_part :: int

text \<open>
  The loop of the search endpoint over the requested part numbers; \<open>replies i\<close> is the
  provider's reply to the \<open>i\<close>-th query.
\<close>
fun search_loop ::
  "string list \<Rightarrow> string option \<Rightarrow> int \<Rightarrow> (nat \<Rightarrow> provider_reply) \<Rightarrow> nat
   \<Rightarrow> PartSearchResult list \<Rightarrow> int \<Rightarrow> PartSearchResult list \<times> int" where
  "search_loop [] manufacturer n replies i results total_images = (results, total_images)"
| "search_loop (part_number # rest) manufacturer n replies i results total_images =
     (let result = search_part_images_service part_number manufacturer n (replies i)
      in search_loop rest manufacturer n replies (Suc i) (results @ [result])
           (if psr_search_success result then total_images + int (length (psr_images result))
            else total_images))"

text \<open>
  The endpoint \<open>POST /search-images\<close>: \<open>search_id\<close> is the identifier \<open>uuid4\<close> returns.
\<close>
definition search_part_images ::
  "tracker \<Rightarrow> string \<Rightarrow> PartSearchRequest \<Rightarrow> (nat \<Rightarrow> provider_reply)
   \<Rightarrow> SearchResponse \<times> tracker" where
  "search_part_images download_tasks search_id request replies =
     (case search_loop (preq_part_numbers request) (preq_manufacturer request)
             (preq_num_images_per_part request) replies 0 [] 0 of
        (results, total_images) \<Rightarrow>
          (\<lparr>sr_search_id = search_id, sr_results = results,
            sr_total_parts = int (length (preq_part_numbers request)),
            sr_total_images_found = total_images\<rparr>,
           download_tasks(search_id \<mapsto>
             empty_task\<lparr>task_search_results := Some results, task_status := Some ''completed''\<rparr>)))"

text \<open>The endpoint \<open>GET /download-status/{download_id}\<close>.\<close>
definition get_download_status :: "tracker \<Rightarrow> string \<Rightarrow> error + DownloadResponse" where
  "get_download_status download_tasks download_id =
     (case download_tasks download_id of
        None \<Rightarrow> Inl (HTTPException 404 ''Download ID not found'')
      | Some task_data \<Rightarrow>
          Inr \<lparr>resp_download_id = download_id,
               resp_status = get_or (task_status task_data) ''unknown'',
               resp_total_images = get_or (task_total_images task_data) 0,
               resp_downloaded_images = get_or (task_downloaded_images task_data) 0,
               resp_results = get_or (task_results task_data) [],
               resp_zip_file = task_zip_file task_data\<rparr>)"

section \<open>The fetcher\<close>

text \<open>
  Local storage under \<open>DOWNLOADS_DIR\<close> maps a file name to the bytes of the file. What
  the network and the file system do during one fetch is an argument: the status of
  the response or the exception \<open>session.get\<close> raises, the body or the exception
  \<open>response.read\<close> raises, whether opening the file raises, and whether writing
  raises (then with the bytes that reached the file). \<open>image_opens\<close> tells whether
  \<open>Image.open\<close> accepts a file content.
\<close>

type_synonym bytes = string
type_synonym storage = "string \<rightharpoonup> bytes"

datatype exn =
    TimeoutError
  | OtherError string

record fetch_env =
  get_outcome :: "exn + int"
  read_outcome :: "exn + bytes"
  open_raises :: "exn option"
  write_raises :: "(exn \<times> bytes) option"

definition failure_result :: "string \<Rightarrow> string \<Rightarrow> string \<Rightarrow> DownloadResult" where
  "failure_result url file_name msg =
     \<lparr>dr_part_number = '''', dr_image_url = url, dr_filename = file_name, dr_success = False,
      dr_error_message = Some msg, dr_file_size = None\<rparr>"

text \<open>The two handlers \<open>except asyncio.TimeoutError\<close> and \<open>except Exception as e\<close>.\<close>
definition on_exception :: "exn \<Rightarrow> string \<Rightarrow> string \<Rightarrow> DownloadResult" where
  "on_exception e url file_name =
     (case e of
        TimeoutError \<Rightarrow> failure_result url file_name ''Timeout''
      | OtherError msg \<Rightarrow> failure_result url file_name (''Error: '' @ take 100 msg))"

definition download_image ::
  "(bytes \<Rightarrow> bool) \<Rightarrow> fetch_env \<Rightarrow> string \<Rightarrow> string \<Rightarrow> storage \<Rightarrow> DownloadResult \<times> storage" where
  "download_image image_opens env url file_name files =
     (case get_outcome env of
        Inl e \<Rightarrow> (on_exception e url file_name, files)
      | Inr status \<Rightarrow>
          if status = 200 then
            (case read_outcome env of
               Inl e \<Rightarrow> (on_exception e url file_name, files)
             | Inr content \<Rightarrow>
                 (case open_raises env of
                    Some e \<Rightarrow> (on_exception e url file_name, files)
                  | None \<Rightarrow>
                      (case write_raises env of
                         Some (e, partial) \<Rightarrow>
                           (on_exception e url file_name, files(file_name \<mapsto> partial))
                       | None \<Rightarrow>
                           (let files1 = files(file_name \<mapsto> content)
                            in if files1 file_name \<noteq> None \<and> length content > 1000 then
                                 (if image_opens (the (files1 file_name)) then
                                    (\<lparr>dr_part_number = '''', dr_image_url = url,
                                      dr_filename = file_name, dr_success = True,
                                      dr_error_message = None,
                                      dr_file_size = Some (int (length content))\<rparr>, files1)
                                  else
                                    (failure_result url file_name ''Invalid image format'',
                                     files1(file_name := None)))
                               else
                                 (failure_result url file_name ''File too small or empty'',
                                  files1(file_name := None))))))
          else (failure_result url file_name (''HTTP '' @ str_int status), files))"

section \<open>The batch orchestrator\<close>

text \<open>
  \<open>download_with_semaphore\<close>: \<open>download_image\<close> handles every exception itself, so the
  handler around it is never entered.
\<close>
definition download_with_semaphore ::
  "(bytes \<Rightarrow> bool) \<Rightarrow> fetch_env \<Rightarrow> string \<Rightarrow> string \<Rightarrow> string \<Rightarrow> storage
   \<Rightarrow> DownloadResult \<times> storage" where
  "download_with_semaphore image_opens env part_number image_url file_name files =
     (case download_image image_opens env image_url file_name files of
        (result, files') \<Rightarrow> (result\<lparr>dr_part_number := part_number\<rparr>, files'))"

text \<open>
  One chunk of fetches. The fetches of a chunk run concurrently under the semaphore;
  the model runs them one after the other in submission order, which is one of the
  schedules, and \<open>asyncio.gather\<close> returns the results in submission order. \<open>envs i\<close>
  is what the outside world does during the fetch of item \<open>i\<close>.
\<close>
fun run_tasks ::
  "(bytes \<Rightarrow> bool) \<Rightarrow> (nat \<Rightarrow> fetch_env) \<Rightarrow> nat \<Rightarrow> (string \<times> string \<times> string) list
   \<Rightarrow> storage \<Rightarrow> DownloadResult list \<times> storage" where
  "run_tasks image_opens envs i [] files = ([], files)"
| "run_tasks image_opens envs i ((part_num, url, file_name) # rest) files =
     (case download_with_semaphore image_opens (envs i) part_num url file_name files of
        (result, files1) \<Rightarrow>
          (case run_tasks image_opens envs (Suc i) rest files1 of
             (results, files2) \<Rightarrow> (result # results, files2)))"

text \<open>\<open>for i in range(0, len(images_data), batch_size)\<close> with \<open>batch_size = 10\<close>.\<close>
function batch_loop ::
  "(bytes \<Rightarrow> bool) \<Rightarrow> (nat \<Rightarrow> fetch_env) \<Rightarrow> nat \<Rightarrow> (string \<times> string \<times> string) list
   \<Rightarrow> storage \<Rightarrow> DownloadResult list \<Rightarrow> DownloadResult list \<times> storage" where
  "batch_loop image_opens envs i images_data files results =
     (if i < length images_data then
        (case run_tasks image_opens envs i (take 10 (drop i images_data)) files of
           (batch_results, files') \<Rightarrow>
             batch_loop image_opens envs (i + 10) images_data files' (results @ batch_results))
      else (results, files))"
  by pat_completeness auto
termination
  by (relation "measure (\<lambda>(image_opens, envs, i, images_data, files, results). length images_data - i)")
     auto

declare batch_loop.simps [simp del]

definition download_images_batch ::
  "(bytes \<Rightarrow> bool) \<Rightarrow> (nat \<Rightarrow> fetch_env) \<Rightarrow> (string \<times> string \<times> string) list \<Rightarrow> storage
   \<Rightarrow> DownloadResult list \<times> storage" where
  "download_images_batch image_opens envs images_data files =
     batch_loop image_opens envs 0 images_data files []"

section \<open>File names and the archiver\<close>

text \<open>
  \<open>"".join(c if c.isalnum() or c in "._-" else "_" for c in part_number)\<close>, the
  expression both \<open>generate_filename\<close> and \<open>create_zip_file\<close> clean a part number with.
\<close>
definition clean_part :: "string \<Rightarrow> string" where
  "clean_part part_number =
     map (\<lambda>c. if isalnum c \<or> c \<in> set ''._-'' then c else CHR ''_'') part_number"

definition image_extensions :: "string list" where
  "image_extensions = [''.jpg'', ''.jpeg'', ''.png'', ''.webp'', ''.gif'']"

text \<open>
  \<open>generate_filename\<close>. The argument \<open>url_suffix\<close> stands for the library expression
  \<open>Path(urlparse(url).path).suffix.lower()\<close>: \<open>None\<close> when it raises.
\<close>
definition generate_filename ::
  "(string \<Rightarrow> string option) \<Rightarrow> string \<Rightarrow> nat \<Rightarrow> string \<Rightarrow> string" where
  "generate_filename url_suffix part_number image_index url =
     (let clean = clean_part part_number;
          extension = (case url_suffix url of
                         None \<Rightarrow> ''.jpg''
                       | Some ext \<Rightarrow> if ext \<notin> set image_extensions then ''.jpg'' else ext)
      in clean @ ''_'' @ str_nat (image_index + 1) @ extension)"

text \<open>
  \<open>Path(name).suffix\<close> of a file name: the text from the last dot on, unless that dot
  is the first or the last character. The final path component is the text after the
  last slash.
\<close>
definition path_name :: "string \<Rightarrow> string" where
  "path_name p = rev (takeWhile (\<lambda>c. c \<noteq> CHR ''/'') (rev p))"

definition path_suffix :: "string \<Rightarrow> string" where
  "path_suffix p =
     (let name = path_name p;
          after_dot = rev (takeWhile (\<lambda>c. c \<noteq> CHR ''.'') (rev name));
          i = length name - length after_dot - 1
      in if CHR ''.'' \<in> set name \<and> 0 < i \<and> after_dot \<noteq> [] then CHR ''.'' # after_dot else [])"

text \<open>
  \<open>part_groups\<close> is a dictionary in insertion order: an association list. A new key
  goes to the end; a result joins the end of the list of its key.
\<close>
fun group_append ::
  "string \<Rightarrow> DownloadResult \<Rightarrow> (string \<times> DownloadResult list) list
   \<Rightarrow> (string \<times> DownloadResult list) list" where
  "group_append part_num result [] = [(part_num, [result])]"
| "group_append part_num result ((k, rs) # groups) =
     (if k = part_num then (k, rs @ [result]) # groups
      else (k, rs) # group_append part_num result groups)"

definition part_groups :: "DownloadResult list \<Rightarrow> (string \<times> DownloadResult list) list" where
  "part_groups download_results =
     foldl (\<lambda>groups result.
              if dr_success result \<and> dr_filename result \<noteq> []
              then group_append (dr_part_number result) result groups
              else groups)
       [] download_results"

text \<open>The name of an archive entry: \<open>PartNumber/partnumber_1.jpg\<close>.\<close>
definition entry_name :: "string \<Rightarrow> nat \<Rightarrow> DownloadResult \<Rightarrow> string" where
  "entry_name part_number i result =
     (let clean_part_folder = clean_part part_number;
          extension = (if path_suffix (dr_filename result) = [] then ''.jpg''
                       else path_suffix (dr_filename result));
          clean_filename = clean_part_folder @ ''_'' @ str_nat (i + 1) @ extension
      in clean_part_folder @ ''/'' @ clean_filename)"

text \<open>The entries one group adds: a result whose file is missing is skipped.\<close>
definition group_entries ::
  "storage \<Rightarrow> string \<times> DownloadResult list \<Rightarrow> (string \<times> bytes) list" where
  "group_entries files g =
     concat (map (\<lambda>(i, result).
                    case files (dr_filename result) of
                      Some data \<Rightarrow> [(entry_name (fst g) i result, data)]
                    | None \<Rightarrow> [])
              (enumerate 0 (snd g)))"

text \<open>\<open>create_zip_file\<close>: the entries of the archive it writes, name and content.\<close>
definition create_zip_file :: "storage \<Rightarrow> DownloadResult list \<Rightarrow> (string \<times> bytes) list" where
  "create_zip_file files download_results =
     concat (map (group_entries files) (part_groups download_results))"

section \<open>Download jobs\<close>

text \<open>
  The state the download endpoints work on: the tracker, the image files and the
  archives in \<open>DOWNLOADS_DIR\<close> (an archive is the list of its entries).
\<close>
record world =
  w_tasks :: tracker
  w_files :: storage
  w_archives :: "string \<rightharpoonup> (string \<times> bytes) list"

text \<open>The download tuples one \<open>PartSearchResult\<close> contributes.\<close>
definition images_of_result ::
  "(string \<Rightarrow> string option) \<Rightarrow> PartSearchResult \<Rightarrow> (string \<times> string \<times> string) list" where
  "images_of_result url_suffix result =
     (if psr_search_success result then
        concat (map (\<lambda>(i, image).
                       if ir_original_url image \<noteq> []
                       then [(psr_part_number result, ir_original_url image,
                              generate_filename url_suffix (psr_part_number result) i
                                (ir_original_url image))]
                       else [])
                 (enumerate 0 (psr_images result)))
      else [])"

text \<open>
  \<open>if request.part_numbers: search_results = [r for r in search_results if ...]\<close>: the
  stored results the request asks for.
\<close>
definition requested_results ::
  "DownloadRequest \<Rightarrow> PartSearchResult list \<Rightarrow> PartSearchResult list" where
  "requested_results request stored_results =
     (case req_part_numbers request of
        None \<Rightarrow> stored_results
      | Some pns \<Rightarrow>
          if pns \<noteq> []
          then filter (\<lambda>r. psr_part_number r \<in> set pns) stored_results
          else stored_results)"

text \<open>
  The endpoint \<open>POST /download-images\<close>: \<open>download_id\<close> is the identifier \<open>uuid4\<close>
  returns. It answers with the response, the new tracker and the tuples handed to the
  background task.
\<close>
definition download_images ::
  "(string \<Rightarrow> string option) \<Rightarrow> tracker \<Rightarrow> string \<Rightarrow> DownloadRequest
   \<Rightarrow> error + (DownloadResponse \<times> tracker \<times> (string \<times> string \<times> string) list)" where
  "download_images url_suffix download_tasks download_id request =
     (case download_tasks (req_search_id request) of
        None \<Rightarrow> Inl (HTTPException 404 ''Search ID not found'')
      | Some search_data \<Rightarrow>
          (case task_search_results search_data of
             None \<Rightarrow> Inl (KeyError ''search_results'')
           | Some stored_results \<Rightarrow>
               (let search_results = requested_results request stored_results;
                    images_to_download = concat (map (images_of_result url_suffix) search_results)
                in Inr (\<lparr>resp_download_id = download_id, resp_status = ''started'',
                         resp_total_images = int (length images_to_download),
                         resp_downloaded_images = 0, resp_results = [], resp_zip_file = None\<rparr>,
                        download_tasks(download_id \<mapsto>
                          empty_task\<lparr>task_status := Some ''started'',
                                     task_total_images := Some (int (length images_to_download)),
                                     task_downloaded_images := Some 0,
                                     task_results := Some []\<rparr>),
                        images_to_download))))"

text \<open>
  The background task \<open>download_images_background\<close>. It returns the states of the
  world a status poll can observe, in order: after the status became \<open>processing\<close>, and
  after the final update. \<open>zip_raises\<close> is the message of the exception
  \<open>create_zip_file\<close> raises, if it raises. When the job is not in the tracker the first
  statement raises \<open>KeyError\<close>, so does the handler, and nothing is written.
\<close>
definition download_images_background ::
  "(bytes \<Rightarrow> bool) \<Rightarrow> (nat \<Rightarrow> fetch_env) \<Rightarrow> string option \<Rightarrow> string
   \<Rightarrow> (string \<times> string \<times> string) list \<Rightarrow> world \<Rightarrow> world list" where
  "download_images_background image_opens envs zip_raises download_id images_to_download w =
     (case w_tasks w download_id of
        None \<Rightarrow> []
      | Some t0 \<Rightarrow>
          (let t1 = t0\<lparr>task_status := Some ''processing''\<rparr>;
               w1 = w\<lparr>w_tasks := (w_tasks w)(download_id \<mapsto> t1)\<rparr>
           in case download_images_batch image_opens envs images_to_download (w_files w1) of
                (results, files') \<Rightarrow>
                  (let successful_downloads = filter dr_success results;
                       zip_filename = ''parts_images_'' @ download_id @ ''.zip''
                   in if successful_downloads \<noteq> [] \<and> zip_raises \<noteq> None then
                        [w1,
                         w1\<lparr>w_files := files',
                            w_tasks := (w_tasks w1)(download_id \<mapsto>
                              t1\<lparr>task_status := Some ''failed'',
                                 task_error_message := zip_raises,
                                 task_downloaded_images := Some 0\<rparr>)\<rparr>]
                      else if successful_downloads \<noteq> [] then
                        [w1,
                         w1\<lparr>w_files := files',
                            w_archives := (w_archives w1)(zip_filename \<mapsto>
                              create_zip_file files' successful_downloads),
                            w_tasks := (w_tasks w1)(download_id \<mapsto>
                              t1\<lparr>task_status := Some ''completed'',
                                 task_downloaded_images := Some (int (length successful_downloads)),
                                 task_results := Some results,
                                 task_zip_file := Some zip_filename\<rparr>)\<rparr>]
                      else
                        [w1,
                         w1\<lparr>w_files := files',
                            w_tasks := (w_tasks w1)(download_id \<mapsto>
                              t1\<lparr>task_status := Some ''completed'',
                                 task_downloaded_images := Some (int (length successful_downloads)),
                                 task_results := Some results,
                                 task_zip_file := None\<rparr>)\<rparr>])))"

text \<open>
  The life of a download job: the state after the endpoint created the job, then the
  states the background task produces. An error of the endpoint creates no job.
\<close>
definition download_job_states ::
  "(string \<Rightarrow> string option) \<Rightarrow> (bytes \<Rightarrow> bool) \<Rightarrow> (nat \<Rightarrow> fetch_env) \<Rightarrow> string option
   \<Rightarrow> string \<Rightarrow> DownloadRequest \<Rightarrow> world \<Rightarrow> world list" where
  "download_job_states url_suffix image_opens envs zip_raises download_id request w =
     (case download_images url_suffix (w_tasks w) download_id request of
        Inl e \<Rightarrow> []
      | Inr (response, tasks', images_to_download) \<Rightarrow>
          (let w0 = w\<lparr>w_tasks := tasks'\<rparr>
           in w0 # download_images_background image_opens envs zip_raises download_id
                     images_to_download w0))"

section \<open>Example inputs\<close>

text \<open>Hits that carry only a title or only a source label.\<close>
definition titled :: "string \<Rightarrow> hit" where
  "titled t = \<lparr>title = Some t, source = None, original = None, link = None,
     thumbnail = None, original_width = None, original_height = None\<rparr>"

definition from_source :: "string \<Rightarrow> hit" where
  "from_source s = \<lparr>title = None, source = Some s, original = None, link = None,
     thumbnail = None, original_width = None, original_height = None\<rparr>"

text \<open>The two hits of the scenario with part number CT-100 and manufacturer Schneider.\<close>
definition hit_a :: hit where
  "hit_a = titled ''CT-100 Schneider industrial contactor''"

definition hit_b :: hit where
  "hit_b = titled ''ct100 logo banner''"






text \<open>
  Fetch scenarios. \<open>looks_like_gif\<close> stands in for \<open>Image.open\<close>: it accepts a content
  that starts with the signature of a GIF file. \<open>gif_body n\<close> is such a content of
  \<open>n\<close> bytes, \<open>blank_body n\<close> one it rejects. \<open>responds\<close> is a fetch during which nothing
  raises; in \<open>disk_full\<close> the write raises after the file was opened.
\<close>
definition looks_like_gif :: "bytes \<Rightarrow> bool" where
  "looks_like_gif data = (take 3 data = ''GIF'')"

definition gif_body :: "nat \<Rightarrow> bytes" where
  "gif_body n = ''GIF'' @ replicate (n - 3) CHR ''x''"

definition blank_body :: "nat \<Rightarrow> bytes" where
  "blank_body n = replicate n CHR ''x''"

definition responds :: "int \<Rightarrow> bytes \<Rightarrow> fetch_env" where
  "responds status body =
     \<lparr>get_outcome = Inr status, read_outcome = Inr body, open_raises = None, write_raises = None\<rparr>"

definition disk_full :: "bytes \<Rightarrow> fetch_env" where
  "disk_full body =
     \<lparr>get_outcome = Inr 200, read_outcome = Inr body, open_raises = None,
      write_raises = Some (OtherError ''No space left on device'', [])\<rparr>"

section \<open>Reading file names and decimal numbers back\<close>

text \<open>
  The value of a decimal digit string, the inverse of \<open>str\<close> on non-negative integers;
  it serves to show that \<open>str\<close> maps different numbers to different strings.
\<close>
definition digit_val :: "char \<Rightarrow> nat" where
  "digit_val c = length (takeWhile (\<lambda>x. x \<noteq> c) digits_ascii)"

definition val_digits :: "string \<Rightarrow> nat" where
  "val_digits s = foldl (\<lambda>a c. 10 * a + digit_val c) 0 s"

section \<open>Download scenarios\<close>

text \<open>
  A stored search job with one result per listed part number and one image per URL.
  For URLs that end in \<open>.jpg\<close> the library expression \<open>Path(urlparse(url).path).suffix.lower()\<close>
  is \<open>.jpg\<close>.
\<close>
definition image_at :: "string \<Rightarrow> ImageResult" where
  "image_at url = \<lparr>ir_title = '''', ir_original_url = url, ir_thumbnail_url = '''',
     ir_source = '''', ir_width = None, ir_height = None\<rparr>"

definition found :: "string \<Rightarrow> string list \<Rightarrow> PartSearchResult" where
  "found pn urls = \<lparr>psr_part_number = pn, psr_search_query = '''', psr_images = map image_at urls,
     psr_search_success = True, psr_error_message = None\<rparr>"

definition search_job :: "PartSearchResult list \<Rightarrow> task" where
  "search_job results =
     empty_task\<lparr>task_search_results := Some results, task_status := Some ''completed''\<rparr>"

definition jpg_suffix :: "string \<Rightarrow> string option" where
  "jpg_suffix url = Some ''.jpg''"

definition all_parts :: "string \<Rightarrow> DownloadRequest" where
  "all_parts sid = \<lparr>req_search_id = sid, req_part_numbers = None\<rparr>"

text \<open>The part number X requested twice, and the part numbers X and Y.\<close>
definition twice_x :: "PartSearchResult list" where
  "twice_x = [found ''X'' [''http://host.example/a.jpg''], found ''X'' [''http://host.example/b.jpg'']]"

definition x_and_y :: "PartSearchResult list" where
  "x_and_y = [found ''X'' [''http://host.example/a.jpg''], found ''Y'' [''http://host.example/b.jpg'']]"

definition world_with :: "PartSearchResult list \<Rightarrow> world" where
  "world_with results =
     \<lparr>w_tasks = [''s1'' \<mapsto> search_job results], w_files = Map.empty, w_archives = Map.empty\<rparr>"

text \<open>
  The first fetch delivers an image of 2000 bytes; every later one delivers 512 bytes
  (\<open>first_good\<close>) or an image of 2000 bytes as well (\<open>all_good\<close>).
\<close>
definition first_good :: "nat \<Rightarrow> fetch_env" where
  "first_good i = (if i = 0 then responds 200 (gif_body 2000) else responds 200 (blank_body 512))"

definition all_good :: "nat \<Rightarrow> fetch_env" where
  "all_good i = responds 200 (gif_body 2000)"

section \<open>What a client observes of a job\<close>

text \<open>The results list a status poll shows for a job; empty when the poll finds no job.\<close>
definition job_results :: "world \<Rightarrow> string \<Rightarrow> DownloadResult list" where
  "job_results w download_id =
     (case get_download_status (w_tasks w) download_id of
        Inl e \<Rightarrow> []
      | Inr resp \<Rightarrow> resp_results resp)"

text \<open>
  Whether a status poll finds the job with a \<open>downloaded_images\<close> count equal to the
  number of successful entries of its results list.
\<close>
definition counts_agree :: "world \<Rightarrow> string \<Rightarrow> bool" where
  "counts_agree w download_id =
     (case get_download_status (w_tasks w) download_id of
        Inl e \<Rightarrow> False
      | Inr resp \<Rightarrow>
          resp_downloaded_images resp = int (length (filter dr_success (resp_results resp))))"

text \<open>The status a poll shows; \<open>missing\<close> when it finds no job.\<close>
definition polled_status :: "world \<Rightarrow> string \<Rightarrow> string" where
  "polled_status w download_id =
     (case get_download_status (w_tasks w) download_id of
        Inl e \<Rightarrow> ''missing''
      | Inr resp \<Rightarrow> resp_status resp)"

section \<open>Properties of the scorer and the selector\<close>

lemma source_trust_eq: "source_trust source_l score = score + 20"
  by (simp add: source_trust_def industrial_sources_def trusted_sources_def)

text \<open>
  C1 (the code departs from the claim). The claim: a hit gets +20 exactly when its source
  label contains a preferred industrial substring, otherwise +10 exactly when it
  contains a marketplace substring, and nothing when it matches neither list. In the
  code the first loop compares each list element with itself, so the source stage adds
  20 to every hit whatever its source label, and the marketplace loop then looks into
  the string "alliance" and never adds 10. A hit from "eBay" scores 20 where the
  claim gives it 10, and a hit from "example.org" scores 20 where the claim gives it 0.
\<close>
theorem source_trust_ignores_source_label:
  "source_trust source_l score = score + 20
   \<and> score_image_relevance (from_source ''eBay'') ''X'' None = 20
   \<and> score_image_relevance (from_source ''example.org'') ''X'' None = 20"
proof -
  have general: "source_trust source_l score = score + 20"
    by (simp add: source_trust_def industrial_sources_def trusted_sources_def)
  have ebay: "score_image_relevance (from_source ''eBay'') ''X'' None = 20"
    by code_simp
  have unlisted: "score_image_relevance (from_source ''example.org'') ''X'' None = 20"
    by code_simp
  from general ebay unlisted show ?thesis by simp
qed

lemma select_loop_Cons:
  "select_loop ((score, img) # rest) m sel =
     (if int (length sel) \<ge> m then sel
      else if score > 10
              \<and> length (filter (\<lambda>sel_img. lower (get_or (source sel_img) '''')
                                          = lower (get_or (source img) '''')) sel) < 2
           then select_loop rest m (sel @ [img])
           else select_loop rest m sel)"
  by (simp add: Let_def)

lemma select_loop_length:
  "int (length (select_loop xs m sel)) \<le> max m (int (length sel))"
proof (induction xs arbitrary: sel)
  case Nil
  then show ?case by simp
next
  case (Cons p rest)
  obtain score img where p: "p = (score, img)" by (cases p)
  have a: "int (length (select_loop rest m (sel @ [img]))) \<le> max m (int (length (sel @ [img])))"
    by (rule Cons.IH)
  have b: "int (length (select_loop rest m sel)) \<le> max m (int (length sel))"
    by (rule Cons.IH)
  show ?case using a b by (auto simp: p Let_def)
qed


lemma select_loop_score:
  assumes "\<forall>p \<in> set xs. fst p = f (snd p)" and "\<forall>h \<in> set sel. f h > (10::int)"
  shows "\<forall>h \<in> set (select_loop xs m sel). f h > 10"
  using assms
proof (induction xs arbitrary: sel)
  case Nil
  then show ?case by simp
next
  case (Cons p rest)
  obtain score img where p: "p = (score, img)" by (cases p)
  have sc: "score = f img" and rest: "\<forall>p \<in> set rest. fst p = f (snd p)"
    using Cons.prems(1) by (simp_all add: p)
  have b: "\<forall>h \<in> set (select_loop rest m sel). f h > 10"
    using Cons.IH[OF rest Cons.prems(2)] .
  have a: "\<forall>h \<in> set (select_loop rest m (sel @ [img])). f h > 10" if "score > 10"
  proof (rule Cons.IH[OF rest])
    show "\<forall>h \<in> set (sel @ [img]). 10 < f h"
      using Cons.prems(2) that sc by simp
  qed
  show ?case
    unfolding p select_loop_Cons
    using a b Cons.prems(2) by (simp only: split: if_split) blast
qed

lemma select_loop_source_cap:
  assumes "\<forall>s. length (filter (\<lambda>h. lower (get_or (source h) '''') = s) sel) \<le> 2"
  shows "length (filter (\<lambda>h. lower (get_or (source h) '''') = s) (select_loop xs m sel)) \<le> 2"
  using assms
proof (induction xs arbitrary: sel)
  case Nil
  then show ?case by simp
next
  case (Cons p rest)
  obtain score img where p: "p = (score, img)" by (cases p)
  let ?key = "\<lambda>h. lower (get_or (source h) '''')"
  have b: "length (filter (\<lambda>h. ?key h = s) (select_loop rest m sel)) \<le> 2"
    using Cons.IH[OF Cons.prems] .
  have a: "length (filter (\<lambda>h. ?key h = s) (select_loop rest m (sel @ [img]))) \<le> 2"
    if c: "length (filter (\<lambda>sel_img. ?key sel_img = ?key img) sel) < 2"
  proof -
    have "\<forall>t. length (filter (\<lambda>h. ?key h = t) (sel @ [img])) \<le> 2"
      using c Cons.prems by auto
    then show ?thesis by (rule Cons.IH)
  qed
  show ?case using a b Cons.prems by (simp add: p Let_def)
qed

lemma set_sort_scored: "set (sort_scored xs) = set xs"
  by (simp add: sort_scored_def)


lemma score_hit_a: "score_image_relevance hit_a ''CT-100'' (Some ''Schneider'') = 114"
  by code_simp

lemma score_hit_b: "score_image_relevance hit_b ''CT-100'' (Some ''Schneider'') = 50"
  by code_simp

lemma source_hit_a: "source hit_a = None"
  by (simp add: hit_a_def titled_def)

lemma source_hit_b: "source hit_b = None"
  by (simp add: hit_b_def titled_def)

lemma select_b_a:
  "select_best_images [hit_b, hit_a] ''CT-100'' (Some ''Schneider'') 4 = [hit_a, hit_b]"
  by (simp add: select_best_images_def sort_scored_def score_hit_a score_hit_b get_or_def
      lower_def source_hit_a source_hit_b)

lemma select_a_b:
  "select_best_images [hit_a, hit_b] ''CT-100'' (Some ''Schneider'') 4 = [hit_a, hit_b]"
  by (simp add: select_best_images_def sort_scored_def score_hit_a score_hit_b get_or_def
      lower_def source_hit_a source_hit_b)

text \<open>
  C2. For every list of hits, part number, optional manufacturer and non-negative
  maximum count, \<open>_select_best_images\<close> returns at most \<open>max_images\<close> hits, every
  returned hit has a relevance score above 10, and no lower-cased source label occurs
  more than twice among the returned hits.
\<close>
theorem select_best_images_bounded:
  assumes "0 \<le> max_images"
  shows "int (length (select_best_images imgs pn m max_images)) \<le> max_images
       \<and> (\<forall>h \<in> set (select_best_images imgs pn m max_images). score_image_relevance h pn m > 10)
       \<and> (\<forall>s. length (filter (\<lambda>h. lower (get_or (source h) '''') = s)
                          (select_best_images imgs pn m max_images)) \<le> 2)"
proof (intro conjI)
  let ?scored = "sort_scored (map (\<lambda>img. (score_image_relevance img pn m, img)) imgs)"
  have "int (length (select_loop ?scored max_images [])) \<le> max max_images (int (length ([]::hit list)))"
    by (rule select_loop_length)
  then show "int (length (select_best_images imgs pn m max_images)) \<le> max_images"
    using assms by (simp add: select_best_images_def)
  have pairs: "\<forall>p \<in> set ?scored. fst p = score_image_relevance (snd p) pn m"
    by (auto simp: set_sort_scored)
  have "\<forall>h \<in> set (select_loop ?scored max_images []). score_image_relevance h pn m > 10"
    by (rule select_loop_score[OF pairs]) simp
  then show "\<forall>h \<in> set (select_best_images imgs pn m max_images). score_image_relevance h pn m > 10"
    by (simp add: select_best_images_def)
  show "\<forall>s. length (filter (\<lambda>h. lower (get_or (source h) '''') = s)
                (select_best_images imgs pn m max_images)) \<le> 2"
  proof
    fix s
    have "length (filter (\<lambda>h. lower (get_or (source h) '''') = s)
            (select_loop ?scored max_images [])) \<le> 2"
      by (rule select_loop_source_cap) simp
    then show "length (filter (\<lambda>h. lower (get_or (source h) '''') = s)
                 (select_best_images imgs pn m max_images)) \<le> 2"
      by (simp add: select_best_images_def)
  qed
qed

theorem select_best_images_bounded_witness:
  "(0::int) \<le> 4
   \<and> int (length (select_best_images [hit_b, hit_a] ''CT-100'' (Some ''Schneider'') 4)) \<le> 4
   \<and> score_image_relevance hit_a ''CT-100'' (Some ''Schneider'') > 10
   \<and> score_image_relevance hit_b ''CT-100'' (Some ''Schneider'') > 10
   \<and> length (filter (\<lambda>h. lower (get_or (source h) '''') = '''')
               (select_best_images [hit_b, hit_a] ''CT-100'' (Some ''Schneider'') 4)) \<le> 2"
  using select_best_images_bounded[of 4 "[hit_b, hit_a]" "''CT-100''" "Some ''Schneider''"]
  by (simp add: select_b_a)

lemma get_or_Some: "get_or (Some x) d = x"
  by (simp add: get_or_def)

lemma get_or_None: "get_or None d = d"
  by (simp add: get_or_def)

lemma dimension_adjust_lower: "dimension_adjust w h s \<ge> s - 15"
  by (simp add: dimension_adjust_def)

lemma part_clean_ct100: "remove_char CHR '' '' (remove_char CHR ''-'' (lower ''CT-100'')) = ''ct100''"
  by code_simp

lemma lower_ct100: "lower ''CT-100'' = ''ct-100''"
  by code_simp

lemma lower_schneider: "lower ''Schneider'' = ''schneider''"
  by code_simp

lemma lower_title_a:
  "lower ''CT-100 Schneider industrial contactor'' = ''ct-100 schneider industrial contactor''"
  by code_simp

lemma clean_title_a:
  "remove_char CHR '' '' (remove_char CHR ''-'' ''ct-100 schneider industrial contactor'')
   = ''ct100schneiderindustrialcontactor''"
  by code_simp

lemma match_title_a: "str_in ''ct100'' ''ct100schneiderindustrialcontactor''"
  by code_simp

lemma manufacturer_title_a: "str_in ''schneider'' ''ct-100 schneider industrial contactor''"
  by code_simp

lemma keywords_title_a:
  "keyword_loop part_keywords ''ct-100 schneider industrial contactor'' s = s + 24"
  by (simp add: part_keywords_def)

lemma avoid_title_a:
  "avoid_loop avoid_keywords ''ct-100 schneider industrial contactor'' s = s"
  by (simp add: avoid_keywords_def)

lemma score_title_a:
  assumes "title h = Some ''CT-100 Schneider industrial contactor''"
  shows "score_image_relevance h ''CT-100'' (Some ''Schneider'')
         = max 0 (dimension_adjust (get_or (original_width h) 0) (get_or (original_height h) 0) 114)"
  unfolding score_image_relevance_def Let_def
  by (simp only: assms get_or_Some lower_title_a part_clean_ct100 clean_title_a match_title_a
      lower_schneider manufacturer_title_a keywords_title_a avoid_title_a source_trust_eq
      option.case if_True) simp

lemma lower_title_b: "lower ''ct100 logo banner'' = ''ct100 logo banner''"
  by code_simp

lemma clean_title_b:
  "remove_char CHR '' '' (remove_char CHR ''-'' ''ct100 logo banner'') = ''ct100logobanner''"
  by code_simp

lemma match_title_b: "str_in ''ct100'' ''ct100logobanner''"
  by code_simp

lemma manufacturer_title_b: "\<not> str_in ''schneider'' ''ct100 logo banner''"
  by code_simp

lemma keywords_title_b: "keyword_loop part_keywords ''ct100 logo banner'' s = s"
  by (simp add: part_keywords_def)

lemma avoid_title_b: "avoid_loop avoid_keywords ''ct100 logo banner'' s = s - 20"
  by (simp add: avoid_keywords_def)

lemma score_title_b:
  assumes "title h = Some ''ct100 logo banner''"
  shows "score_image_relevance h ''CT-100'' (Some ''Schneider'')
         = max 0 (dimension_adjust (get_or (original_width h) 0) (get_or (original_height h) 0) 50)"
  unfolding score_image_relevance_def Let_def
  by (simp only: assms get_or_Some lower_title_b part_clean_ct100 clean_title_b match_title_b
      lower_schneider manufacturer_title_b keywords_title_b avoid_title_b source_trust_eq
      option.case if_True if_False) simp

text \<open>
  C3 (the claim as stated fails). With part number CT-100 and manufacturer Schneider the
  hit titled "ct100 logo banner" does match the part number, because the match strips
  hyphens and spaces and ignores case: it scores 50, not at most 0, and the selector
  admits it together with the hit titled "CT-100 Schneider industrial contactor".
\<close>
theorem ct100_logo_banner_counterexample:
  "score_image_relevance hit_b ''CT-100'' (Some ''Schneider'') = 50
   \<and> select_best_images [hit_a, hit_b] ''CT-100'' (Some ''Schneider'') 4 = [hit_a, hit_b]
   \<and> \<not> (score_image_relevance hit_b ''CT-100'' (Some ''Schneider'') \<le> 0
          \<and> hit_b \<notin> set (select_best_images [hit_a, hit_b] ''CT-100'' (Some ''Schneider'') 4))"
proof -
  have "score_image_relevance hit_b ''CT-100'' (Some ''Schneider'') = 50"
    by code_simp
  moreover have "select_best_images [hit_a, hit_b] ''CT-100'' (Some ''Schneider'') 4 = [hit_a, hit_b]"
    by (simp add: select_best_images_def sort_scored_def score_hit_a score_hit_b get_or_def
        lower_def source_hit_a source_hit_b)
  ultimately show ?thesis by simp
qed

text \<open>
  C3, amended. With part number CT-100 and manufacturer Schneider: every hit titled
  "CT-100 Schneider industrial contactor" scores at least 78; every hit titled
  "ct100 logo banner" matches the normalised part number and scores more than 10, the
  admission threshold; and selecting from a list of the two hits admits both, the
  contactor hit first.
\<close>
theorem ct100_scenario:
  "(title h = Some ''CT-100 Schneider industrial contactor''
      \<longrightarrow> score_image_relevance h ''CT-100'' (Some ''Schneider'') \<ge> 78)
   \<and> (title h' = Some ''ct100 logo banner''
      \<longrightarrow> score_image_relevance h' ''CT-100'' (Some ''Schneider'') > 10)
   \<and> select_best_images [hit_b, hit_a] ''CT-100'' (Some ''Schneider'') 4 = [hit_a, hit_b]"
proof (intro conjI impI)
  assume a: "title h = Some ''CT-100 Schneider industrial contactor''"
  have "dimension_adjust (get_or (original_width h) 0) (get_or (original_height h) 0) 114 \<ge> 114 - 15"
    by (rule dimension_adjust_lower)
  then show "score_image_relevance h ''CT-100'' (Some ''Schneider'') \<ge> 78"
    by (simp add: score_title_a[OF a])
next
  assume b: "title h' = Some ''ct100 logo banner''"
  have "dimension_adjust (get_or (original_width h') 0) (get_or (original_height h') 0) 50 \<ge> 50 - 15"
    by (rule dimension_adjust_lower)
  then show "score_image_relevance h' ''CT-100'' (Some ''Schneider'') > 10"
    by (simp add: score_title_b[OF b])
next
  show "select_best_images [hit_b, hit_a] ''CT-100'' (Some ''Schneider'') 4 = [hit_a, hit_b]"
    by (rule select_b_a)
qed

theorem ct100_scenario_witness:
  "title hit_a = Some ''CT-100 Schneider industrial contactor''
   \<and> score_image_relevance hit_a ''CT-100'' (Some ''Schneider'') \<ge> 78
   \<and> title hit_b = Some ''ct100 logo banner''
   \<and> score_image_relevance hit_b ''CT-100'' (Some ''Schneider'') > 10
   \<and> select_best_images [hit_b, hit_a] ''CT-100'' (Some ''Schneider'') 4 = [hit_a, hit_b]"
  using ct100_scenario[of hit_a hit_b]
  by (simp add: hit_a_def hit_b_def titled_def)

section \<open>The exclusion filter of re-processing\<close>

lemma filter_previous_images_subset:
  "set (filter_previous_images imgs ex) \<subseteq> set imgs"
  by (auto simp: filter_previous_images_def split: option.splits)







section \<open>Search jobs under the status endpoint\<close>

text \<open>
  C10. The identifier under which a search-images call stored its results is known to
  the download-status endpoint: a poll with it finds the search job in the shared
  tracker and answers status "completed", zero total and downloaded images, no results
  and no archive, instead of a not-found error.
\<close>
theorem search_id_polls_as_completed:
  "sr_search_id (fst (search_part_images download_tasks search_id request replies)) = search_id
   \<and> get_download_status (snd (search_part_images download_tasks search_id request replies)) search_id
     = Inr \<lparr>resp_download_id = search_id, resp_status = ''completed'', resp_total_images = 0,
            resp_downloaded_images = 0, resp_results = [], resp_zip_file = None\<rparr>"
proof -
  obtain results total where loop:
    "search_loop (preq_part_numbers request) (preq_manufacturer request)
       (preq_num_images_per_part request) replies 0 [] 0 = (results, total)"
    by (cases "search_loop (preq_part_numbers request) (preq_manufacturer request)
                 (preq_num_images_per_part request) replies 0 [] 0")
  show ?thesis
    by (simp add: search_part_images_def loop get_download_status_def empty_task_def get_or_def)
qed

section \<open>The fetcher: size threshold and files left on storage\<close>

lemma str_int_404: "str_int 404 = ''404''"
  by code_simp

lemma download_image_responds_200:
  "download_image image_opens (responds 200 body) url file_name files =
     (if length body > 1000 then
        (if image_opens body then
           (\<lparr>dr_part_number = '''', dr_image_url = url, dr_filename = file_name, dr_success = True,
             dr_error_message = None, dr_file_size = Some (int (length body))\<rparr>,
            files(file_name \<mapsto> body))
         else (failure_result url file_name ''Invalid image format'', files(file_name := None)))
      else (failure_result url file_name ''File too small or empty'', files(file_name := None)))"
  by (simp add: download_image_def responds_def Let_def)

lemma length_gif_body: "3 \<le> n \<Longrightarrow> length (gif_body n) = n"
  by (simp add: gif_body_def)

lemma looks_like_gif_body: "looks_like_gif (gif_body n)"
  by (simp add: looks_like_gif_def gif_body_def)

text \<open>
  C4 (the claim as stated fails). The size test of the code is \<open>len(content) > 1000\<close>:
  a body of 1001 bytes that the image decoder accepts is below 1024 bytes, yet the
  fetch succeeds and the file stays on storage.
\<close>
theorem body_of_1001_bytes_counterexample:
  "length (gif_body 1001) = 1001
   \<and> dr_success (fst (download_image looks_like_gif (responds 200 (gif_body 1001))
                       ''http://host.example/a.gif'' ''P_1.gif'' Map.empty))
   \<and> snd (download_image looks_like_gif (responds 200 (gif_body 1001))
            ''http://host.example/a.gif'' ''P_1.gif'' Map.empty) ''P_1.gif''
     = Some (gif_body 1001)"
  by (simp add: download_image_responds_200 length_gif_body looks_like_gif_body)

text \<open>
  C4, amended. For every fetch that receives an HTTP 200 response whose body has at most
  1000 bytes and is written to storage without an input/output error, \<open>download_image\<close>
  returns a failure result with the message "File too small or empty" and no file
  exists at the assigned file name afterwards; a 512-byte body is such a body.
\<close>
theorem small_body_rejected:
  assumes "get_outcome env = Inr 200" and "read_outcome env = Inr body"
    and "open_raises env = None" and "write_raises env = None"
    and "length body \<le> 1000"
  shows "fst (download_image image_opens env url file_name files)
           = failure_result url file_name ''File too small or empty''
       \<and> \<not> dr_success (fst (download_image image_opens env url file_name files))
       \<and> snd (download_image image_opens env url file_name files) file_name = None"
  using assms by (simp add: download_image_def Let_def failure_result_def)

theorem small_body_rejected_witness:
  "get_outcome (responds 200 (blank_body 512)) = Inr 200
   \<and> read_outcome (responds 200 (blank_body 512)) = Inr (blank_body 512)
   \<and> open_raises (responds 200 (blank_body 512)) = None
   \<and> write_raises (responds 200 (blank_body 512)) = None
   \<and> length (blank_body 512) = 512
   \<and> dr_error_message (fst (download_image looks_like_gif (responds 200 (blank_body 512))
        ''http://host.example/a.gif'' ''P_1.gif'' Map.empty)) = Some ''File too small or empty''
   \<and> \<not> dr_success (fst (download_image looks_like_gif (responds 200 (blank_body 512))
        ''http://host.example/a.gif'' ''P_1.gif'' Map.empty))
   \<and> snd (download_image looks_like_gif (responds 200 (blank_body 512))
        ''http://host.example/a.gif'' ''P_1.gif'' Map.empty) ''P_1.gif'' = None"
  using small_body_rejected[of "responds 200 (blank_body 512)" "blank_body 512" looks_like_gif
      "''http://host.example/a.gif''" "''P_1.gif''" Map.empty]
  by (simp add: responds_def blank_body_def failure_result_def)

text \<open>
  C5 (the claim as stated fails). A failed fetch can end with a file at the assigned
  file name. After a non-200 response the code returns without touching storage, so a
  file that an earlier job stored under the same name is still there; and when writing
  the body raises after the file was opened, the handler returns the failure result
  and the partly written file stays.
\<close>
theorem failed_fetch_file_exists_counterexample:
  "\<not> dr_success (fst (download_image looks_like_gif (responds 404 [])
        ''http://host.example/a.gif'' ''P_1.gif'' [''P_1.gif'' \<mapsto> gif_body 2000]))
   \<and> snd (download_image looks_like_gif (responds 404 [])
        ''http://host.example/a.gif'' ''P_1.gif'' [''P_1.gif'' \<mapsto> gif_body 2000]) ''P_1.gif''
     = Some (gif_body 2000)
   \<and> \<not> dr_success (fst (download_image looks_like_gif (disk_full (gif_body 2000))
        ''http://host.example/a.gif'' ''P_1.gif'' Map.empty))
   \<and> snd (download_image looks_like_gif (disk_full (gif_body 2000))
        ''http://host.example/a.gif'' ''P_1.gif'' Map.empty) ''P_1.gif'' = Some []"
  by (simp add: download_image_def responds_def disk_full_def failure_result_def on_exception_def)

text \<open>
  C5, amended. If \<open>download_image\<close> returns a successful result, a file holding the body
  exists at the assigned file name and no other file changed. If it returns a failure
  and writing the body did not raise, then the call left no file of its own: either
  storage is exactly as before the call (non-200 status, timeout, any exception before
  the write) or no file exists at the assigned file name (undersized body, invalid
  image). So when no file existed at the assigned name before the call, none exists
  after a failure.
\<close>
theorem download_image_storage_effect:
  assumes "download_image image_opens env url file_name files = (result, files')"
  shows "(dr_success result \<longrightarrow>
            (\<exists>body. read_outcome env = Inr body \<and> files' = files(file_name \<mapsto> body)))
       \<and> (\<not> dr_success result \<and> write_raises env = None \<longrightarrow>
            files' = files \<or> files' = files(file_name := None))
       \<and> (\<not> dr_success result \<and> write_raises env = None \<and> files file_name = None \<longrightarrow>
            files' file_name = None)"
proof -
  have effect: "(dr_success result \<longrightarrow>
            (\<exists>body. read_outcome env = Inr body \<and> files' = files(file_name \<mapsto> body)))
       \<and> (\<not> dr_success result \<and> write_raises env = None \<longrightarrow>
            files' = files \<or> files' = files(file_name := None))"
    using assms
    by (auto simp: download_image_def Let_def failure_result_def on_exception_def
        split: sum.splits option.splits if_splits exn.splits prod.splits)
  have third: "\<not> dr_success result \<and> write_raises env = None \<and> files file_name = None \<longrightarrow>
            files' file_name = None"
    using effect by auto
  from effect third show ?thesis by blast
qed

theorem download_image_storage_effect_witness:
  "download_image looks_like_gif (responds 404 []) ''http://host.example/a.gif'' ''P_1.gif'' Map.empty
     = (failure_result ''http://host.example/a.gif'' ''P_1.gif'' ''HTTP 404'', Map.empty)
   \<and> \<not> dr_success (failure_result ''http://host.example/a.gif'' ''P_1.gif'' ''HTTP 404'')
   \<and> write_raises (responds 404 []) = None
   \<and> (Map.empty :: storage) ''P_1.gif'' = None
   \<and> dr_success (fst (download_image looks_like_gif (responds 200 (gif_body 2000))
        ''http://host.example/a.gif'' ''P_1.gif'' Map.empty))
   \<and> snd (download_image looks_like_gif (responds 200 (gif_body 2000))
        ''http://host.example/a.gif'' ''P_1.gif'' Map.empty) = [''P_1.gif'' \<mapsto> gif_body 2000]"
proof -
  have run: "download_image looks_like_gif (responds 404 []) ''http://host.example/a.gif''
               ''P_1.gif'' Map.empty
             = (failure_result ''http://host.example/a.gif'' ''P_1.gif'' ''HTTP 404'', Map.empty)"
    by (simp add: download_image_def responds_def str_int_404)
  have ok: "download_image looks_like_gif (responds 200 (gif_body 2000)) ''http://host.example/a.gif''
              ''P_1.gif'' Map.empty
            = (\<lparr>dr_part_number = '''', dr_image_url = ''http://host.example/a.gif'',
                dr_filename = ''P_1.gif'', dr_success = True, dr_error_message = None,
                dr_file_size = Some 2000\<rparr>, [''P_1.gif'' \<mapsto> gif_body 2000])"
    by (simp add: download_image_responds_200 length_gif_body looks_like_gif_body)
  have wr: "write_raises (responds 404 []) = None"
    by (simp add: responds_def)
  note download_image_storage_effect[OF run] download_image_storage_effect[OF ok]
  then show ?thesis
    by (simp add: run ok wr failure_result_def)
qed

section \<open>File names within a download job\<close>

lemma digit_val_digit_char: "d < 10 \<Longrightarrow> digit_val (digit_char d) = d"
proof -
  assume "d < 10"
  then have "d = 0 \<or> d = 1 \<or> d = 2 \<or> d = 3 \<or> d = 4 \<or> d = 5 \<or> d = 6 \<or> d = 7 \<or> d = 8 \<or> d = 9"
    by arith
  then show ?thesis
    by (elim disjE) (simp_all add: digit_val_def digit_char_def digits_ascii_def)
qed

lemma digit_char_in_digits: "d < 10 \<Longrightarrow> digit_char d \<in> set digits_ascii"
  unfolding digit_char_def by (rule nth_mem) (simp add: digits_ascii_def)

lemma val_digits_snoc: "val_digits (s @ [c]) = 10 * val_digits s + digit_val c"
  by (simp add: val_digits_def)

lemma val_digits_str_nat: "val_digits (str_nat n) = n"
proof (induction n rule: str_nat.induct)
  case (1 n)
  show ?case
  proof (cases "n < 10")
    case True
    then show ?thesis
      by (simp add: str_nat.simps[of n] val_digits_def digit_val_digit_char)
  next
    case False
    then have "val_digits (str_nat n) = 10 * val_digits (str_nat (n div 10)) + digit_val (digit_char (n mod 10))"
      by (simp add: str_nat.simps[of n] val_digits_snoc)
    also have "\<dots> = 10 * (n div 10) + n mod 10"
      using 1[OF False] by (simp add: digit_val_digit_char)
    finally show ?thesis by simp
  qed
qed

lemma str_nat_inj:
  assumes "str_nat a = str_nat b"
  shows "a = b"
proof -
  have "a = val_digits (str_nat a)"
    by (simp only: val_digits_str_nat)
  also have "\<dots> = val_digits (str_nat b)"
    by (simp only: assms)
  also have "\<dots> = b"
    by (rule val_digits_str_nat)
  finally show ?thesis .
qed

lemma str_nat_digits: "set (str_nat n) \<subseteq> set digits_ascii"
proof (induction n rule: str_nat.induct)
  case (1 n)
  show ?case
  proof (cases "n < 10")
    case True
    then show ?thesis by (simp add: str_nat.simps[of n] digit_char_in_digits)
  next
    case False
    then show ?thesis
      using 1[OF False] by (simp add: str_nat.simps[of n] digit_char_in_digits)
  qed
qed

lemma underscore_not_in_str_nat: "CHR ''_'' \<notin> set (str_nat n)"
  using str_nat_digits[of n] by (auto simp: digits_ascii_def)

lemma split_at_last:
  assumes "c \<notin> set w" and "c \<notin> set w'" and "x @ c # w = x' @ c # w'"
  shows "x = x' \<and> w = w'"
proof -
  have "rev w @ c # rev x = rev w' @ c # rev x'"
    using arg_cong[OF assms(3), of rev] by simp
  then have "takeWhile (\<lambda>y. y \<noteq> c) (rev w @ c # rev x) = takeWhile (\<lambda>y. y \<noteq> c) (rev w' @ c # rev x')"
    by simp
  moreover have "takeWhile (\<lambda>y. y \<noteq> c) (rev w @ c # rev x) = rev w"
    using assms(1) by (auto simp: takeWhile_tail)
  moreover have "takeWhile (\<lambda>y. y \<noteq> c) (rev w' @ c # rev x') = rev w'"
    using assms(2) by (auto simp: takeWhile_tail)
  ultimately have "w = w'" by simp
  with assms(3) show ?thesis by simp
qed

lemma extension_shape:
  assumes "ext \<in> set image_extensions"
  shows "\<exists>w. ext = CHR ''.'' # w \<and> CHR ''.'' \<notin> set w"
  using assms by (auto simp: image_extensions_def)

lemma generate_filename_shape:
  "\<exists>w. generate_filename url_suffix p i u = (clean_part p @ CHR ''_'' # str_nat (i + 1)) @ CHR ''.'' # w
       \<and> CHR ''.'' \<notin> set w"
proof -
  define ext where "ext = (case url_suffix u of None \<Rightarrow> ''.jpg''
                           | Some e \<Rightarrow> if e \<notin> set image_extensions then ''.jpg'' else e)"
  have "ext \<in> set image_extensions"
    by (auto simp: ext_def image_extensions_def split: option.splits)
  then obtain w where w: "ext = CHR ''.'' # w" "CHR ''.'' \<notin> set w"
    using extension_shape by blast
  have "generate_filename url_suffix p i u = (clean_part p @ CHR ''_'' # str_nat (i + 1)) @ ext"
    by (simp add: generate_filename_def Let_def ext_def)
  with w show ?thesis by blast
qed

lemma generate_filename_inj:
  assumes "generate_filename url_suffix p i u = generate_filename url_suffix p' i' u'"
  shows "clean_part p = clean_part p' \<and> i = i'"
proof -
  obtain w where w: "generate_filename url_suffix p i u
      = (clean_part p @ CHR ''_'' # str_nat (i + 1)) @ CHR ''.'' # w" "CHR ''.'' \<notin> set w"
    using generate_filename_shape by blast
  obtain w' where w': "generate_filename url_suffix p' i' u'
      = (clean_part p' @ CHR ''_'' # str_nat (i' + 1)) @ CHR ''.'' # w'" "CHR ''.'' \<notin> set w'"
    using generate_filename_shape by blast
  have "clean_part p @ CHR ''_'' # str_nat (i + 1) = clean_part p' @ CHR ''_'' # str_nat (i' + 1)"
  proof -
    have "(clean_part p @ CHR ''_'' # str_nat (i + 1)) @ CHR ''.'' # w
          = (clean_part p' @ CHR ''_'' # str_nat (i' + 1)) @ CHR ''.'' # w'"
      using assms w(1) w'(1) by simp
    then show ?thesis
      using split_at_last[OF w(2) w'(2)] by blast
  qed
  then have "clean_part p = clean_part p' \<and> str_nat (i + 1) = str_nat (i' + 1)"
    by (rule split_at_last[OF underscore_not_in_str_nat underscore_not_in_str_nat])
  then show ?thesis using str_nat_inj by auto
qed

end
